theory Spec2Isabelle
  imports Main "HOL-Library.Word"
begin

section \<open>JavaScript values\<close>

text \<open>
  A JavaScript string is a sequence of UTF-16 code units, and \<open>slice\<close>, \<open>substring\<close>,
  \<open>startsWith\<close> and \<open>===\<close> work on code units. Strings are therefore lists of 16-bit words;
  \<open>lit\<close> turns an ASCII literal of the source into its code units.

  Console output (\<open>console.log\<close>, \<open>console.warn\<close>) is not part of any returned value and is
  not observable by a caller, so it is left out of the model.
\<close>

type_synonym jsstring = "16 word list"

definition lit :: "string \<Rightarrow> jsstring" where
  "lit s = map (\<lambda>c. of_nat (of_char c)) s"

text \<open>
  An object property of a known type may be missing (\<open>undefined\<close>) or \<open>null\<close>. Properties
  hold values of the type the source documents for them (a string for a slug, a name, a status or
  a link; a boolean for a completed flag).
\<close>

datatype 'a field = Undefined | Null | Val 'a

text \<open>Truthiness of a string-valued property: only a non-empty string is truthy.\<close>

fun truthy :: "jsstring field \<Rightarrow> bool" where
  "truthy (Val s) = (s \<noteq> [])"
| "truthy Undefined = False"
| "truthy Null = False"

text \<open>Interpolation of a string-valued property in a template literal.\<close>

fun toStr :: "jsstring field \<Rightarrow> jsstring" where
  "toStr (Val s) = s"
| "toStr Undefined = lit ''undefined''"
| "toStr Null = lit ''null''"

text \<open>\<open>Date.now()\<close> interpolated in a template literal: the decimal digits of the number.\<close>

fun decimal :: "nat \<Rightarrow> jsstring" where
  "decimal n = (if n < 10 then [of_nat (48 + n)]
                else decimal (n div 10) @ [of_nat (48 + n mod 10)])"

declare decimal.simps [simp del]

section \<open>Data model\<close>

text \<open>A menu document of \<open>dynamicMenus\<close>: \<open>{ id: doc.id, ...doc.data() }\<close>.\<close>

record menu =
  menu_id :: jsstring
  menu_slug :: "jsstring field"
  menu_name :: "jsstring field"
  menu_icon :: "jsstring field"
  menu_type :: "jsstring field"

text \<open>A task object, as read by \<open>navigateToTask\<close> (its id) and by \<open>isTaskCompleted\<close>.\<close>

record task =
  task_id :: jsstring
  task_isCompleted :: "bool field"
  task_completed :: "bool field"
  task_status :: "jsstring field"
  task_completionLink :: "jsstring field"

text \<open>
  An entry of \<open>taskState\<close>. The properties the source names are fields of their own; every other
  property the object may hold is kept in \<open>ts_other\<close>. The empty object \<open>{}\<close> has every field
  undefined.
\<close>

record 'x task_state_entry =
  ts_completed :: "bool field"
  ts_completedAt :: "jsstring field"
  ts_updatedAt :: "jsstring field"
  ts_link :: "jsstring field"
  ts_status :: "jsstring field"
  ts_comments :: "'x list field"
  ts_other :: "jsstring \<rightharpoonup> 'x"

definition empty_entry :: "'x task_state_entry" where
  "empty_entry = \<lparr> ts_completed = Undefined, ts_completedAt = Undefined, ts_updatedAt = Undefined,
                   ts_link = Undefined, ts_status = Undefined, ts_comments = Undefined,
                   ts_other = Map.empty \<rparr>"

text \<open>An entry of \<open>activityLogs\<close>, with exactly the properties \<open>recordActivityEntry\<close> writes.\<close>

record activity_entry =
  entry_id :: jsstring
  entry_taskId :: "jsstring field"
  entry_taskName :: "jsstring field"
  entry_phase :: "jsstring field"
  entry_status :: "jsstring field"
  entry_completedAt :: "jsstring field"
  entry_updatedAt :: "jsstring field"
  entry_performedBy :: "jsstring field"
  entry_menuId :: "jsstring field"

text \<open>The destructured argument object of \<open>recordActivityEntry\<close>.\<close>

record activity_args =
  arg_taskId :: "jsstring field"
  arg_taskName :: "jsstring field"
  arg_phase :: "jsstring field"
  arg_status :: "jsstring field"
  arg_timestamp :: "jsstring field"
  arg_completedAt :: "jsstring field"
  arg_performedBy :: "jsstring field"
  arg_menuId :: "jsstring field"

text \<open>
  The module-level variables of the page: the menu directory, the tasks loaded per menu (an
  object iterated with \<open>for ... in\<close>, so an association list in insertion order), the activity log
  and the \<open>innerHTML\<close> of the \<open>#main-navigation\<close> element.
\<close>

record app_state =
  dynamicMenus :: "menu list"
  dynamicTasks :: "(jsstring \<times> task list) list"
  activityLogs :: "activity_entry list"
  nav_innerHTML :: jsstring

section \<open>Menu id to path: \<open>getMenuPath\<close> and \<open>navigateToTask\<close>\<close>

definition getMenuPath :: "menu list \<Rightarrow> jsstring \<Rightarrow> jsstring" where
  "getMenuPath menus menuId =
     (case find (\<lambda>m. menu_id m = menuId) menus of
        None \<Rightarrow> lit ''/tongquan''
      | Some menu \<Rightarrow>
          (let slug = (if truthy (menu_slug menu) then toStr (menu_slug menu)
                       else lit ''dynamic-menu/'' @ menuId)
           in lit ''/'' @ slug))"

text \<open>
  \<open>navigateToTask\<close> returns the path it hands to \<open>router.navigate\<close>, or \<open>None\<close> when it does not
  navigate. The second search walks \<open>dynamicTasks\<close> in order and stops (\<open>break\<close>) at the first menu
  id whose task list holds the task, whether or not that menu id is still in the directory.
\<close>

definition search_menus :: "menu list \<Rightarrow> (jsstring \<times> task list) list \<Rightarrow> jsstring \<Rightarrow> menu option" where
  "search_menus menus tasks actualTaskId =
     (case find (\<lambda>(searchMenuId, ts). find (\<lambda>t. task_id t = actualTaskId) ts \<noteq> None) tasks of
        None \<Rightarrow> None
      | Some (searchMenuId, ts) \<Rightarrow> find (\<lambda>m. menu_id m = searchMenuId) menus)"

definition navigateToTask ::
  "menu list \<Rightarrow> (jsstring \<times> task list) list \<Rightarrow> jsstring field \<Rightarrow> jsstring field \<Rightarrow> jsstring option" where
  "navigateToTask menus tasks taskId menuId =
     (if \<not> truthy taskId then None
      else if take 8 (toStr taskId) = lit ''dynamic-'' then
        (let actualTaskId = drop 8 (toStr taskId);
             provided = (if truthy menuId then find (\<lambda>m. Val (menu_id m) = menuId) menus else None);
             foundMenu = (case provided of Some m \<Rightarrow> Some m
                          | None \<Rightarrow> search_menus menus tasks actualTaskId)
         in case foundMenu of
              Some m \<Rightarrow> Some (getMenuPath menus (menu_id m))
            | None \<Rightarrow> None)
      else None)"


section \<open>The activity recorder: \<open>recordActivityEntry\<close>\<close>

text \<open>\<open>now\<close> is the value of \<open>Date.now()\<close> at the call.\<close>

definition new_entry :: "activity_args \<Rightarrow> nat \<Rightarrow> activity_entry" where
  "new_entry a now =
     \<lparr> entry_id = toStr (arg_taskId a) @ lit ''-'' @ decimal now,
       entry_taskId = arg_taskId a,
       entry_taskName = arg_taskName a,
       entry_phase = arg_phase a,
       entry_status = arg_status a,
       entry_completedAt = arg_completedAt a,
       entry_updatedAt = arg_timestamp a,
       entry_performedBy = arg_performedBy a,
       entry_menuId = (if truthy (arg_menuId a) then arg_menuId a else Null) \<rparr>"

definition recordActivityEntry :: "activity_args \<Rightarrow> nat \<Rightarrow> app_state \<Rightarrow> app_state" where
  "recordActivityEntry a now st = st\<lparr>activityLogs := new_entry a now # activityLogs st\<rparr>"

section \<open>The sidebar and the menu subscription\<close>

definition sidebar_home :: jsstring where
  \<open>sidebar_home = lit ''<a class="nav-link" href="/tongquan">'' @ [0xD83D, 0xDCCA] @ lit '' T''
                     @ [0x1ED5] @ lit ''ng Quan</a>''\<close>

definition sidebar_link :: "menu \<Rightarrow> jsstring" where
  \<open>sidebar_link menu =
     (let menuPath = (if truthy (menu_slug menu) then lit ''/'' @ toStr (menu_slug menu)
                      else lit ''/dynamic-menu/'' @ menu_id menu)
      in lit ''<a class="nav-link" href="'' @ menuPath @ lit ''">'' @ toStr (menu_icon menu)
           @ lit '' '' @ toStr (menu_name menu) @ lit ''</a>'')\<close>

text \<open>
  \<open>renderSidebarDynamic\<close> reads \<open>dynamicMenus\<close> and overwrites \<open>nav.innerHTML\<close>; the
  \<open>#main-navigation\<close> element is part of the page.
\<close>

definition sidebar_html :: "menu list \<Rightarrow> jsstring" where
  "sidebar_html menus =
     foldl (\<lambda>html menu. if menu_type menu = Val (lit ''task-list'') then html @ sidebar_link menu
                         else html) sidebar_home menus"

definition renderSidebarDynamic :: "app_state \<Rightarrow> app_state" where
  "renderSidebarDynamic st = st\<lparr>nav_innerHTML := sidebar_html (dynamicMenus st)\<rparr>"

text \<open>
  The \<open>onSnapshot\<close> callback installed by \<open>loadDynamicMenus\<close>: the snapshot is the list of menu
  documents it pushes, in the order of the query. \<open>renderDynamicMenus\<close>, \<open>renderDynamicOverview\<close>
  and \<open>router.handleCurrent\<close> are called by the callback but their bodies are not given; the
  route of the current path is the one \<open>resolve\<close> computes from the directory.
\<close>

definition onSnapshot :: "menu list \<Rightarrow> app_state \<Rightarrow> app_state" where
  "onSnapshot snapshot st = renderSidebarDynamic (st\<lparr>dynamicMenus := snapshot\<rparr>)"

section \<open>The router: \<open>resolve\<close>\<close>

text \<open>
  The route object of a dynamic menu, and the result of \<open>resolve\<close>. A static result carries the
  value found in the route table; \<open>notFound\<close> is \<open>True\<close> where the source sets the property and
  \<open>False\<close> where it leaves it out.
\<close>

record menu_route =
  route_layout :: jsstring
  route_section :: jsstring
  route_menuId :: jsstring
  route_menuName :: "jsstring field"

datatype 'c route = ConfigRoute 'c | MenuRoute menu_route

record 'c resolved =
  res_path :: jsstring
  res_route :: "'c route"
  res_notFound :: bool

text \<open>The predicate of the \<open>find\<close> over the directory.\<close>

definition route_match :: "jsstring \<Rightarrow> menu \<Rightarrow> bool" where
  "route_match pathWithoutSlash m \<longleftrightarrow>
     menu_type m = Val (lit ''task-list'') \<and>
     (menu_slug m = Val pathWithoutSlash \<or> lit ''dynamic-menu/'' @ menu_id m = pathWithoutSlash)"

text \<open>
  \<open>normalizeRoutePath\<close>, the route table \<open>config\<close> and \<open>defaultRoute\<close> are used by \<open>resolve\<close> but
  defined elsewhere; they are parameters. The table is a map from its own keys to route objects,
  which are always truthy.
\<close>

definition resolve ::
  "(jsstring \<Rightarrow> jsstring) \<Rightarrow> (jsstring \<rightharpoonup> 'c) \<Rightarrow> 'c \<Rightarrow> menu list \<Rightarrow> jsstring \<Rightarrow> 'c resolved" where
  "resolve normalizeRoutePath config defaultRoute menus pathname =
     (let normalized = normalizeRoutePath pathname in
      case config normalized of
        Some r \<Rightarrow> \<lparr> res_path = normalized, res_route = ConfigRoute r, res_notFound = False \<rparr>
      | None \<Rightarrow>
          (let pathWithoutSlash = drop 1 normalized in
           case find (route_match pathWithoutSlash) menus of
             Some dynamicMenu \<Rightarrow>
               \<lparr> res_path = normalized,
                 res_route = MenuRoute \<lparr> route_layout = lit ''app'',
                                         route_section = lit ''dynamic-menu'',
                                         route_menuId = menu_id dynamicMenu,
                                         route_menuName = menu_name dynamicMenu \<rparr>,
                 res_notFound = False \<rparr>
           | None \<Rightarrow> \<lparr> res_path = lit ''/'', res_route = ConfigRoute defaultRoute,
                       res_notFound = True \<rparr>))"

text \<open>
  The static route table \<open>routeConfig\<close> as the notes list it, each route object reduced to its
  \<open>layout\<close>. The two administration routes are elided there (\<open>{ ... }\<close>); their route objects
  are parameters.
\<close>

definition routeConfig :: "jsstring \<Rightarrow> jsstring \<Rightarrow> (jsstring \<rightharpoonup> jsstring)" where
  "routeConfig userAdmin planAdmin = map_of
     [(lit ''/'', lit ''cover''), (lit ''/login'', lit ''login''), (lit ''/tongquan'', lit ''app''),
      (lit ''/ghichu'', lit ''app''), (lit ''/quan-ly-nguoi-dung'', userAdmin),
      (lit ''/quan-ly-ke-hoach'', planAdmin), (lit ''/cai-dat'', lit ''app'')]"

section \<open>Completion status: \<open>normalizeStatus\<close> and \<open>isTaskCompleted\<close>\<close>

text \<open>
  \<open>String.prototype.trim\<close> removes the white space and line terminator code units of ECMAScript
  from both ends.
\<close>

definition isWhiteSpace :: "16 word \<Rightarrow> bool" where
  "isWhiteSpace c \<longleftrightarrow>
     c \<in> set [0x9, 0xA, 0xB, 0xC, 0xD, 0x20, 0xA0, 0x1680, 0x2000, 0x2001, 0x2002, 0x2003, 0x2004,
              0x2005, 0x2006, 0x2007, 0x2008, 0x2009, 0x200A, 0x2028, 0x2029, 0x202F, 0x205F,
              0x3000, 0xFEFF]"

definition trim :: "jsstring \<Rightarrow> jsstring" where
  "trim s = rev (dropWhile isWhiteSpace (rev (dropWhile isWhiteSpace s)))"

text \<open>
  \<open>String.prototype.toLowerCase\<close> is the Unicode lower-casing of the platform; it is a parameter
  of the functions that call it. \<open>lower_basic\<close> is what it does on strings of ASCII letters,
  Latin-1 letters and \<open>U+0110\<close>, for evaluating concrete inputs.
\<close>

definition lower_unit :: "16 word \<Rightarrow> 16 word" where
  "lower_unit c =
     (if 0x41 \<le> c \<and> c \<le> 0x5A then c + 0x20
      else if 0xC0 \<le> c \<and> c \<le> 0xDE \<and> c \<noteq> 0xD7 then c + 0x20
      else if c = 0x110 then 0x111
      else c)"

definition lower_basic :: "jsstring \<Rightarrow> jsstring" where
  "lower_basic s = map lower_unit s"

definition normalizeStatus :: "(jsstring \<Rightarrow> jsstring) \<Rightarrow> jsstring field \<Rightarrow> jsstring" where
  "normalizeStatus toLowerCase status =
     (if truthy status then trim (toLowerCase (toStr status)) else lit '''')"

text \<open>
  The five accepted spellings. The two Vietnamese ones are written in the source with the
  precomposed letters \<open>U+00E0\<close> (a with grave), \<open>U+0111\<close> (d with stroke) and \<open>U+00E3\<close>
  (a with tilde).
\<close>

definition completedVariations :: "jsstring list" where
  "completedVariations =
     [lit ''completed'',
      lit ''ho'' @ [0xE0] @ lit ''n th'' @ [0xE0] @ lit ''nh'',
      [0x111, 0xE3] @ lit '' ho'' @ [0xE0] @ lit ''n th'' @ [0xE0] @ lit ''nh'',
      lit ''done'',
      lit ''xong'']"

definition isTaskCompleted :: "(jsstring \<Rightarrow> jsstring) \<Rightarrow> task \<Rightarrow> 'x task_state_entry \<Rightarrow> bool" where
  "isTaskCompleted toLowerCase task taskState =
     (if ts_completed taskState = Val True then True
      else if task_isCompleted task = Val True then True
      else if task_completed task = Val True then True
      else if truthy (task_status task) \<and>
              normalizeStatus toLowerCase (task_status task) \<in> set completedVariations then True
      else if truthy (ts_status taskState) \<and>
              normalizeStatus toLowerCase (ts_status taskState) \<in> set completedVariations then True
      else if truthy (task_completionLink task) \<or> truthy (ts_link taskState) then True
      else False)"

section \<open>Reopening a task: \<open>handleTaskEdit\<close>\<close>

text \<open>
  The argument of the \<open>onSuccess\<close> callback, and the handler. \<open>taskState\<close> maps a task id to its
  entry; the handler creates an empty entry where there is none, writes three properties and
  calls \<open>onSuccess\<close>. \<open>now\<close> is \<open>new Date().toISOString()\<close> at the call; the default of \<open>slug\<close>
  applies when the option is undefined.
\<close>

record 'x edit_success =
  success_taskId :: jsstring
  success_slug :: "jsstring field"
  success_state :: "'x task_state_entry"

definition reopened :: "jsstring \<Rightarrow> 'x task_state_entry \<Rightarrow> 'x task_state_entry" where
  "reopened now e = e\<lparr> ts_completed := Val False, ts_completedAt := Null, ts_updatedAt := Val now \<rparr>"

definition handleTaskEdit ::
  "jsstring \<Rightarrow> jsstring field \<Rightarrow> jsstring \<Rightarrow> (jsstring \<rightharpoonup> 'x task_state_entry)
     \<Rightarrow> (jsstring \<rightharpoonup> 'x task_state_entry) \<times> 'x edit_success" where
  "handleTaskEdit taskId slug now taskState =
     (let entry = (case taskState taskId of None \<Rightarrow> empty_entry | Some e \<Rightarrow> e);
          entry' = reopened now entry
      in (taskState(taskId \<mapsto> entry'),
          \<lparr> success_taskId = taskId,
            success_slug = (if slug = Undefined then Val (lit ''tongquan'') else slug),
            success_state = entry' \<rparr>))"

section \<open>Example data\<close>

text \<open>A menu document with the given id, slug and type, for evaluating the functions.\<close>

definition mk_menu :: "string \<Rightarrow> jsstring field \<Rightarrow> string \<Rightarrow> menu" where
  "mk_menu i slug ty =
     \<lparr> menu_id = lit i, menu_slug = slug, menu_name = Val (lit ''Giai Doan 1''),
       menu_icon = Val (lit ''*''), menu_type = Val (lit ty) \<rparr>"

text \<open>The arguments of the recorder when a task of the menu \<open>xyz789\<close> is completed.\<close>

definition complete_args :: activity_args where
  "complete_args =
     \<lparr> arg_taskId = Val (lit ''dynamic-abc123''), arg_taskName = Val (lit ''Setup Database''),
       arg_phase = Val (lit ''Giai Doan 1''), arg_status = Val (lit ''completed''),
       arg_timestamp = Val (lit ''2024-01-01T00:00:00.000Z''),
       arg_completedAt = Val (lit ''2024-01-01T00:00:00.000Z''),
       arg_performedBy = Val (lit ''admin''), arg_menuId = Val (lit ''xyz789'') \<rparr>"

definition state0 :: app_state where
  "state0 = \<lparr> dynamicMenus = [mk_menu ''xyz789'' (Val (lit ''giaidoan1'')) ''task-list''],
              dynamicTasks = [], activityLogs = [], nav_innerHTML = [] \<rparr>"

text \<open>A task with no completed flag set, and a saved state of a completed task.\<close>

definition mk_task :: "jsstring field \<Rightarrow> jsstring field \<Rightarrow> task" where
  "mk_task status completionLink =
     \<lparr> task_id = lit ''t1'', task_isCompleted = Undefined, task_completed = Val False,
       task_status = status, task_completionLink = completionLink \<rparr>"

definition done_entry :: "jsstring task_state_entry" where
  "done_entry =
     \<lparr> ts_completed = Val True, ts_completedAt = Val (lit ''2024-01-01T00:00:00.000Z''),
       ts_updatedAt = Val (lit ''2024-01-01T00:00:00.000Z''), ts_link = Val (lit ''https://x.vn''),
       ts_status = Undefined, ts_comments = Val [lit ''ok''], ts_other = Map.empty \<rparr>"

section \<open>Lookups in the directory\<close>


lemma find_none_iff_set: "find P xs = None \<longleftrightarrow> (\<forall>x\<in>set xs. \<not> P x)"
  by (induction xs) simp_all

lemma find_some_member: "find P xs = Some x \<Longrightarrow> x \<in> set xs \<and> P x"
  by (induction xs) (auto split: if_splits)

lemma find_filter_conj:
  "find (\<lambda>x. Q x \<and> R x) (filter Q xs) = find (\<lambda>x. Q x \<and> R x) xs"
  by (induction xs) simp_all

lemma route_match_filter:
  "find (route_match s) (filter (\<lambda>m. menu_type m = Val (lit ''task-list'')) menus)
     = find (route_match s) menus"
  unfolding route_match_def by (rule find_filter_conj)


lemma find_absent: "k \<notin> f ` set xs \<Longrightarrow> find (\<lambda>y. f y = k) xs = None"
  by (induction xs) auto





section \<open>Navigation targets\<close>




text \<open>
  C6, as the code has it. When the menu id is not in the directory, \<open>getMenuPath\<close> returns the
  path \<open>/tongquan\<close>. The function is total: it returns for every directory and every id.
\<close>

theorem getMenuPath_deleted_menu:
  "menuId \<notin> menu_id ` set menus \<Longrightarrow> getMenuPath menus menuId = lit ''/tongquan''"
  by (simp add: getMenuPath_def find_absent)

theorem getMenuPath_deleted_menu_witness:
  "lit ''m1'' \<notin> menu_id ` set [mk_menu ''m2'' (Val (lit ''b'')) ''task-list''] \<and>
   getMenuPath [mk_menu ''m2'' (Val (lit ''b'')) ''task-list''] (lit ''m1'') = lit ''/tongquan''"
proof -
  have absent: "lit ''m1'' \<notin> menu_id ` set [mk_menu ''m2'' (Val (lit ''b'')) ''task-list'']"
    by (simp add: mk_menu_def lit_def)
  from absent getMenuPath_deleted_menu [OF absent] show ?thesis by simp
qed

text \<open>
  C6 as it is worded also has the caller told that the target no longer exists. The value
  returned for a deleted menu is the bare path, the very value returned for a live menu whose
  slug is \<open>tongquan\<close>, so nothing in it tells the caller; and \<open>navigateToTask\<close>, given a menu id
  that is gone and a task it finds in no list, does not navigate at all.
\<close>

theorem getMenuPath_deleted_no_signal_counterexample:
  "getMenuPath [] (lit ''m1'') = lit ''/tongquan'' \<and>
   getMenuPath [mk_menu ''m1'' (Val (lit ''tongquan'')) ''task-list''] (lit ''m1'')
     = getMenuPath [] (lit ''m1'') \<and>
   navigateToTask [] [] (Val (lit ''dynamic-t1'')) (Val (lit ''m1'')) = None"
  by (simp add: getMenuPath_def navigateToTask_def search_menus_def mk_menu_def lit_def)

section \<open>Route resolution\<close>

lemma resolve_static:
  "config (n p) = Some r \<Longrightarrow>
   resolve n config d menus p = \<lparr> res_path = n p, res_route = ConfigRoute r, res_notFound = False \<rparr>"
  by (simp add: resolve_def)

lemma resolve_found:
  "config (n p) = None \<Longrightarrow> find (route_match (drop 1 (n p))) menus = Some m \<Longrightarrow>
   resolve n config d menus p =
     \<lparr> res_path = n p,
       res_route = MenuRoute \<lparr> route_layout = lit ''app'', route_section = lit ''dynamic-menu'',
                               route_menuId = menu_id m, route_menuName = menu_name m \<rparr>,
       res_notFound = False \<rparr>"
  by (simp add: resolve_def)

lemma resolve_missing:
  "config (n p) = None \<Longrightarrow> find (route_match (drop 1 (n p))) menus = None \<Longrightarrow>
   resolve n config d menus p =
     \<lparr> res_path = lit ''/'', res_route = ConfigRoute d, res_notFound = True \<rparr>"
  by (simp add: resolve_def)

text \<open>
  C2. When the normalized path is a key of the static route table, \<open>resolve\<close> returns the static
  result with the route object of the table, and the result is the same for every state of the
  menu directory: the table is consulted before the directory is looked at.
\<close>

theorem resolve_static_precedence:
  assumes "config (normalizeRoutePath p) = Some r"
  shows "resolve normalizeRoutePath config defaultRoute menus p =
           \<lparr> res_path = normalizeRoutePath p, res_route = ConfigRoute r, res_notFound = False \<rparr> \<and>
         resolve normalizeRoutePath config defaultRoute menus' p =
           resolve normalizeRoutePath config defaultRoute menus p"
  using assms by (simp add: resolve_static)

theorem resolve_static_precedence_witness:
  "routeConfig (lit ''app'') (lit ''app'') (lit ''/tongquan'') = Some (lit ''app'') \<and>
   resolve (\<lambda>p. p) (routeConfig (lit ''app'') (lit ''app'')) (lit ''cover'')
      [mk_menu ''m1'' (Val (lit ''tongquan'')) ''task-list''] (lit ''/tongquan'') =
     \<lparr> res_path = lit ''/tongquan'', res_route = ConfigRoute (lit ''app''), res_notFound = False \<rparr>"
proof -
  have static:
    "routeConfig (lit ''app'') (lit ''app'') ((\<lambda>p. p) (lit ''/tongquan'')) = Some (lit ''app'')"
    by (simp add: routeConfig_def lit_def)
  from static
    resolve_static_precedence
      [of "routeConfig (lit ''app'') (lit ''app'')" "\<lambda>p. p" "lit ''/tongquan''" "lit ''app''"
          "lit ''cover''" "[mk_menu ''m1'' (Val (lit ''tongquan'')) ''task-list'']"]
  show ?thesis by simp
qed




text \<open>
  C4. Menus whose type is not \<open>task-list\<close> play no part in resolution: removing them from the
  directory changes no result. Every dynamic result carries the id and the name of a task-list
  menu of the directory, and, ids being unique, never the id of a menu of another type, whatever
  its slug.
\<close>

theorem resolve_only_task_lists:
  "resolve n config d (filter (\<lambda>m. menu_type m = Val (lit ''task-list'')) menus) p
     = resolve n config d menus p \<and>
   (\<forall>r. res_route (resolve n config d menus p) = MenuRoute r \<longrightarrow>
      (\<exists>m\<in>set menus. menu_type m = Val (lit ''task-list'') \<and>
                      route_menuId r = menu_id m \<and> route_menuName r = menu_name m)) \<and>
   (\<forall>e\<in>set menus. menu_type e \<noteq> Val (lit ''task-list'') \<longrightarrow> distinct (map menu_id menus) \<longrightarrow>
      (\<forall>r. res_route (resolve n config d menus p) = MenuRoute r \<longrightarrow> route_menuId r \<noteq> menu_id e))"
proof -
  have same: "resolve n config d (filter (\<lambda>m. menu_type m = Val (lit ''task-list'')) menus) p
     = resolve n config d menus p"
  proof (cases "config (n p)")
    case (Some r)
    then show ?thesis by (simp add: resolve_static)
  next
    case None
    then show ?thesis by (simp add: resolve_def route_match_filter)
  qed
  have origin: "\<exists>m\<in>set menus. menu_type m = Val (lit ''task-list'') \<and>
                      route_menuId r = menu_id m \<and> route_menuName r = menu_name m"
    if "res_route (resolve n config d menus p) = MenuRoute r" for r
  proof (cases "config (n p)")
    case (Some c)
    with that show ?thesis by (simp add: resolve_static)
  next
    case None
    show ?thesis
    proof (cases "find (route_match (drop 1 (n p))) menus")
      case nf: None
      with None that show ?thesis by (simp add: resolve_missing)
    next
      case (Some m)
      then have "m \<in> set menus" and "route_match (drop 1 (n p)) m"
        using find_some_member by fastforce+
      moreover have "route_menuId r = menu_id m \<and> route_menuName r = menu_name m"
        using None Some that by (auto simp: resolve_found)
      ultimately show ?thesis by (auto simp: route_match_def)
    qed
  qed
  have never: "route_menuId r \<noteq> menu_id e"
    if "e \<in> set menus" and "menu_type e \<noteq> Val (lit ''task-list'')"
      and "distinct (map menu_id menus)"
      and "res_route (resolve n config d menus p) = MenuRoute r" for e r
  proof
    assume eq: "route_menuId r = menu_id e"
    from origin [OF that(4)] obtain m where m: "m \<in> set menus"
      "menu_type m = Val (lit ''task-list'')" "route_menuId r = menu_id m" by blast
    from eq m(3) have "menu_id m = menu_id e" by simp
    with that(1,3) m(1) have "m = e" by (meson distinct_map inj_onD)
    with m(2) that(2) show False by simp
  qed
  from same origin never show ?thesis by blast
qed

theorem resolve_only_task_lists_witness:
  "res_route (resolve (\<lambda>p. p) (routeConfig (lit ''app'') (lit ''app'')) (lit ''cover'')
      [mk_menu ''e1'' (Val (lit ''a'')) ''external-link'', mk_menu ''m1'' (Val (lit ''a'')) ''task-list'']
      (lit ''/a''))
     = MenuRoute \<lparr> route_layout = lit ''app'', route_section = lit ''dynamic-menu'',
                   route_menuId = lit ''m1'', route_menuName = Val (lit ''Giai Doan 1'') \<rparr> \<and>
   res_notFound (resolve (\<lambda>p. p) (routeConfig (lit ''app'') (lit ''app'')) (lit ''cover'')
      [mk_menu ''e1'' (Val (lit ''a'')) ''external-link''] (lit ''/a''))"
  using resolve_only_task_lists
    [where n = "\<lambda>p. p" and config = "routeConfig (lit ''app'') (lit ''app'')" and d = "lit ''cover''"
       and menus = "[mk_menu ''e1'' (Val (lit ''a'')) ''external-link'',
                     mk_menu ''m1'' (Val (lit ''a'')) ''task-list'']"
       and p = "lit ''/a''"]
    resolve_only_task_lists
    [where n = "\<lambda>p. p" and config = "routeConfig (lit ''app'') (lit ''app'')" and d = "lit ''cover''"
       and menus = "[mk_menu ''e1'' (Val (lit ''a'')) ''external-link'']"
       and p = "lit ''/a''"]
  by (simp add: resolve_def routeConfig_def route_match_def mk_menu_def lit_def)

text \<open>
  C5, as the code has it. \<open>resolve\<close> is a total function of the path and the directory, and its
  result has one of three forms: the static result, the dynamic result of a matching task-list
  menu, or the home path \<open>/\<close> with the default route and the not-found tag. The not-found result
  is returned exactly when the normalized path is not in the route table and no task-list menu
  matches the rest of the path by its slug or by \<open>dynamic-menu/\<close> followed by its id.
\<close>

theorem resolve_outcomes:
  "(res_notFound (resolve n config d menus p) \<longleftrightarrow>
      config (n p) = None \<and> (\<forall>m\<in>set menus. \<not> route_match (drop 1 (n p)) m)) \<and>
   ((\<exists>r. config (n p) = Some r \<and>
          resolve n config d menus p =
            \<lparr> res_path = n p, res_route = ConfigRoute r, res_notFound = False \<rparr>) \<or>
    (\<exists>m\<in>set menus. config (n p) = None \<and> route_match (drop 1 (n p)) m \<and>
          resolve n config d menus p =
            \<lparr> res_path = n p,
              res_route = MenuRoute \<lparr> route_layout = lit ''app'', route_section = lit ''dynamic-menu'',
                                      route_menuId = menu_id m, route_menuName = menu_name m \<rparr>,
              res_notFound = False \<rparr>) \<or>
    (config (n p) = None \<and> (\<forall>m\<in>set menus. \<not> route_match (drop 1 (n p)) m) \<and>
          resolve n config d menus p =
            \<lparr> res_path = lit ''/'', res_route = ConfigRoute d, res_notFound = True \<rparr>))"
proof (cases "config (n p)")
  case (Some r)
  then show ?thesis by (simp add: resolve_static)
next
  case None
  show ?thesis
  proof (cases "find (route_match (drop 1 (n p))) menus")
    case nf: None
    then have "\<forall>m\<in>set menus. \<not> route_match (drop 1 (n p)) m"
      by (simp add: find_none_iff_set)
    with None nf show ?thesis by (simp add: resolve_missing)
  next
    case (Some m)
    then have mem: "m \<in> set menus" "route_match (drop 1 (n p)) m"
      using find_some_member by fastforce+
    have "resolve n config d menus p =
            \<lparr> res_path = n p,
              res_route = MenuRoute \<lparr> route_layout = lit ''app'', route_section = lit ''dynamic-menu'',
                                      route_menuId = menu_id m, route_menuName = menu_name m \<rparr>,
              res_notFound = False \<rparr>"
      using None Some by (rule resolve_found)
    with None mem show ?thesis by auto
  qed
qed

theorem resolve_outcomes_witness:
  "resolve (\<lambda>p. p) (routeConfig (lit ''app'') (lit ''app'')) (lit ''cover'')
      [mk_menu ''m1'' (Val (lit ''giai-doan-1'')) ''task-list''] (lit ''/giaidoan1'') =
     \<lparr> res_path = lit ''/'', res_route = ConfigRoute (lit ''cover''), res_notFound = True \<rparr>"
  using resolve_outcomes
    [where n = "\<lambda>p. p" and config = "routeConfig (lit ''app'') (lit ''app'')" and d = "lit ''cover''"
       and menus = "[mk_menu ''m1'' (Val (lit ''giai-doan-1'')) ''task-list'']"
       and p = "lit ''/giaidoan1''"]
  by (simp add: routeConfig_def route_match_def mk_menu_def lit_def)

text \<open>
  C5 as it is worded has the not-found result whenever neither a static route nor the slug of a
  task-list menu matches. The path \<open>/dynamic-menu/x\<close> is no static route and no menu has the slug
  \<open>dynamic-menu/x\<close>, yet the result is the dynamic one of the menu with id \<open>x\<close>. The path is
  lower-case and has no trailing slash, so normalization is taken to leave it as it is.
\<close>

theorem resolve_alias_counterexample:
  "routeConfig (lit ''app'') (lit ''app'') (lit ''/dynamic-menu/x'') = None \<and>
   menu_slug (mk_menu ''x'' (Val (lit ''a'')) ''task-list'') \<noteq> Val (lit ''dynamic-menu/x'') \<and>
   resolve (\<lambda>p. p) (routeConfig (lit ''app'') (lit ''app'')) (lit ''cover'')
      [mk_menu ''x'' (Val (lit ''a'')) ''task-list''] (lit ''/dynamic-menu/x'') =
     \<lparr> res_path = lit ''/dynamic-menu/x'',
       res_route = MenuRoute \<lparr> route_layout = lit ''app'', route_section = lit ''dynamic-menu'',
                               route_menuId = lit ''x'', route_menuName = Val (lit ''Giai Doan 1'') \<rparr>,
       res_notFound = False \<rparr>"
  by (simp add: resolve_def routeConfig_def route_match_def mk_menu_def lit_def)

section \<open>Refreshing the directory\<close>

text \<open>
  C7. Delivering the same snapshot a second time leaves the whole state as the first delivery
  left it. The sidebar HTML after a delivery is a function of the delivered menus alone, whatever
  the state before, and every path resolves after the second delivery as it did after the first.
\<close>

theorem onSnapshot_idempotent:
  "onSnapshot snapshot (onSnapshot snapshot st) = onSnapshot snapshot st \<and>
   nav_innerHTML (onSnapshot snapshot st) = sidebar_html snapshot \<and>
   nav_innerHTML (onSnapshot snapshot st') = nav_innerHTML (onSnapshot snapshot st) \<and>
   resolve n config d (dynamicMenus (onSnapshot snapshot (onSnapshot snapshot st))) p
     = resolve n config d (dynamicMenus (onSnapshot snapshot st)) p"
  by (simp add: onSnapshot_def renderSidebarDynamic_def)

theorem onSnapshot_idempotent_witness:
  \<open>nav_innerHTML (onSnapshot [mk_menu ''m1'' (Val (lit ''a'')) ''task-list'',
                              mk_menu ''e1'' (Val (lit ''b'')) ''external-link'',
                              mk_menu ''m2'' Undefined ''task-list'']
                    (onSnapshot [mk_menu ''m1'' (Val (lit ''a'')) ''task-list'',
                              mk_menu ''e1'' (Val (lit ''b'')) ''external-link'',
                              mk_menu ''m2'' Undefined ''task-list''] state0))
     = sidebar_home @ lit ''<a class="nav-link" href="/a">* Giai Doan 1</a>''
         @ lit ''<a class="nav-link" href="/dynamic-menu/m2">* Giai Doan 1</a>''\<close>
  using onSnapshot_idempotent
    [where snapshot = "[mk_menu ''m1'' (Val (lit ''a'')) ''task-list'',
                              mk_menu ''e1'' (Val (lit ''b'')) ''external-link'',
                              mk_menu ''m2'' Undefined ''task-list'']" and st = state0
       and st' = state0 and n = "\<lambda>p. p" and config = "routeConfig (lit ''app'') (lit ''app'')"
       and d = "lit ''cover''" and p = "lit ''/a''"]
  by (simp add: sidebar_html_def sidebar_link_def mk_menu_def lit_def)

section \<open>Recorded activity\<close>

lemma decimal_42: "decimal 42 = lit ''42''"
  by (simp add: decimal.simps lit_def)

text \<open>
  C8. When the recorder is given the id of the menu the action belongs to, the entry it puts at
  the head of the activity log carries that id in \<open>menuId\<close>. The entry is built from the arguments
  and the clock alone: its nine properties hold no slug and no path, it is the same whatever the
  slugs in the menu directory are, and the directory and the older entries are left as they were.
\<close>

theorem recordActivityEntry_menuId:
  assumes "arg_menuId a = Val menuId" and "menuId \<noteq> []"
  shows "activityLogs (recordActivityEntry a now st) =
           \<lparr> entry_id = toStr (arg_taskId a) @ lit ''-'' @ decimal now,
             entry_taskId = arg_taskId a,
             entry_taskName = arg_taskName a,
             entry_phase = arg_phase a,
             entry_status = arg_status a,
             entry_completedAt = arg_completedAt a,
             entry_updatedAt = arg_timestamp a,
             entry_performedBy = arg_performedBy a,
             entry_menuId = Val menuId \<rparr> # activityLogs st \<and>
         activityLogs (recordActivityEntry a now (st\<lparr>dynamicMenus := menus'\<rparr>))
           = activityLogs (recordActivityEntry a now st) \<and>
         dynamicMenus (recordActivityEntry a now st) = dynamicMenus st"
  using assms by (simp add: recordActivityEntry_def new_entry_def)

theorem recordActivityEntry_menuId_witness:
  "map entry_menuId (activityLogs (recordActivityEntry complete_args 42 state0))
     = [Val (lit ''xyz789'')] \<and>
   map entry_id (activityLogs (recordActivityEntry complete_args 42 state0))
     = [lit ''dynamic-abc123-42'']"
  using recordActivityEntry_menuId [of complete_args "lit ''xyz789''" 42 state0]
  by (simp add: complete_args_def state0_def decimal_42 lit_def)

section \<open>Completion status\<close>

lemma empty_not_variation: "lit '''' \<notin> set completedVariations"
  by (simp add: completedVariations_def lit_def)

lemma normalizeStatus_in_variations:
  "normalizeStatus lower f \<in> set completedVariations \<longleftrightarrow>
     (\<exists>s. f = Val s \<and> s \<noteq> [] \<and> trim (lower s) \<in> set completedVariations)"
proof (cases f)
  case (Val s)
  then show ?thesis using empty_not_variation by (auto simp: normalizeStatus_def)
qed (use empty_not_variation in \<open>auto simp: normalizeStatus_def\<close>)

text \<open>
  C9. A truthy \<open>task.completionLink\<close> or \<open>taskState.link\<close> makes \<open>isTaskCompleted\<close> return true,
  whatever the flags and the status strings are. When no completed flag is \<open>true\<close> and there is
  no link, the result is true exactly when \<open>task.status\<close> or \<open>taskState.status\<close> is a non-empty
  string that, lower-cased and then trimmed, is one of the five accepted spellings.
\<close>

theorem isTaskCompleted_links_and_status:
  "(truthy (task_completionLink task) \<or> truthy (ts_link st) \<longrightarrow> isTaskCompleted lower task st) \<and>
   (ts_completed st \<noteq> Val True \<and> task_isCompleted task \<noteq> Val True \<and>
    task_completed task \<noteq> Val True \<and>
    \<not> truthy (task_completionLink task) \<and> \<not> truthy (ts_link st) \<longrightarrow>
      (isTaskCompleted lower task st \<longleftrightarrow>
         (\<exists>s. s \<noteq> [] \<and> (task_status task = Val s \<or> ts_status st = Val s) \<and>
              trim (lower s) \<in>
                {lit ''completed'',
                 lit ''ho'' @ [0xE0] @ lit ''n th'' @ [0xE0] @ lit ''nh'',
                 [0x111, 0xE3] @ lit '' ho'' @ [0xE0] @ lit ''n th'' @ [0xE0] @ lit ''nh'',
                 lit ''done'', lit ''xong''})))"
proof -
  have cv: "set completedVariations =
      {lit ''completed'',
       lit ''ho'' @ [0xE0] @ lit ''n th'' @ [0xE0] @ lit ''nh'',
       [0x111, 0xE3] @ lit '' ho'' @ [0xE0] @ lit ''n th'' @ [0xE0] @ lit ''nh'',
       lit ''done'', lit ''xong''}"
    by (simp add: completedVariations_def)
  have links:
    "truthy (task_completionLink task) \<or> truthy (ts_link st) \<longrightarrow> isTaskCompleted lower task st"
    by (simp add: isTaskCompleted_def)
  have status: "isTaskCompleted lower task st \<longleftrightarrow>
         (\<exists>s. s \<noteq> [] \<and> (task_status task = Val s \<or> ts_status st = Val s) \<and>
              trim (lower s) \<in> set completedVariations)"
    if "ts_completed st \<noteq> Val True" "task_isCompleted task \<noteq> Val True"
      "task_completed task \<noteq> Val True"
      "\<not> truthy (task_completionLink task)" "\<not> truthy (ts_link st)"
  proof -
    have "isTaskCompleted lower task st \<longleftrightarrow>
        (truthy (task_status task) \<and>
           normalizeStatus lower (task_status task) \<in> set completedVariations) \<or>
        (truthy (ts_status st) \<and>
           normalizeStatus lower (ts_status st) \<in> set completedVariations)"
      using that by (simp add: isTaskCompleted_def)
    also have "\<dots> \<longleftrightarrow> normalizeStatus lower (task_status task) \<in> set completedVariations \<or>
        normalizeStatus lower (ts_status st) \<in> set completedVariations"
      by (auto simp: normalizeStatus_in_variations)
    also have "\<dots> \<longleftrightarrow> (\<exists>s. s \<noteq> [] \<and> (task_status task = Val s \<or> ts_status st = Val s) \<and>
              trim (lower s) \<in> set completedVariations)"
      by (auto simp: normalizeStatus_in_variations)
    finally show ?thesis .
  qed
  from links status show ?thesis unfolding cv by blast
qed

theorem isTaskCompleted_links_and_status_witness:
  "isTaskCompleted lower_basic (mk_task (Val (lit ''pending'')) (Val (lit ''https://x.vn'')))
     (empty_entry :: jsstring task_state_entry) \<and>
   isTaskCompleted lower_basic
     (mk_task (Val ([0x20, 0x20] @ lit ''HO'' @ [0xC0] @ lit ''N TH'' @ [0xC0] @ lit ''NH''
                      @ [0x20, 0xA])) Undefined)
     (empty_entry :: jsstring task_state_entry) \<and>
   \<not> isTaskCompleted lower_basic (mk_task (Val (lit ''pending'')) Undefined)
     (empty_entry :: jsstring task_state_entry)"
  using isTaskCompleted_links_and_status
      [of "mk_task (Val (lit ''pending'')) (Val (lit ''https://x.vn''))"
          "empty_entry :: jsstring task_state_entry" lower_basic]
    isTaskCompleted_links_and_status
      [of "mk_task (Val ([0x20, 0x20] @ lit ''HO'' @ [0xC0] @ lit ''N TH'' @ [0xC0] @ lit ''NH''
                           @ [0x20, 0xA])) Undefined"
          "empty_entry :: jsstring task_state_entry" lower_basic]
    isTaskCompleted_links_and_status
      [of "mk_task (Val (lit ''pending'')) Undefined" "empty_entry :: jsstring task_state_entry"
          lower_basic]
  by (simp add: mk_task_def empty_entry_def trim_def lower_basic_def lower_unit_def
      isWhiteSpace_def lit_def)

section \<open>Reopening a task\<close>

text \<open>
  C10. For a task that has an entry in \<open>taskState\<close>, \<open>handleTaskEdit\<close> sets \<open>completed\<close> to false,
  \<open>completedAt\<close> to null and \<open>updatedAt\<close> to the current time in that entry, and hands the entry
  to \<open>onSuccess\<close>. The link, the comments, the status and every other property of the entry are as
  before, and so is the entry of every other task.
\<close>

theorem handleTaskEdit_frame:
  assumes "taskState taskId = Some e"
  shows "(\<exists>e'. fst (handleTaskEdit taskId slug now taskState) taskId = Some e' \<and>
               success_state (snd (handleTaskEdit taskId slug now taskState)) = e' \<and>
               ts_completed e' = Val False \<and> ts_completedAt e' = Null \<and>
               ts_updatedAt e' = Val now \<and>
               ts_link e' = ts_link e \<and> ts_comments e' = ts_comments e \<and>
               ts_status e' = ts_status e \<and> ts_other e' = ts_other e) \<and>
         (\<forall>k. k \<noteq> taskId \<longrightarrow> fst (handleTaskEdit taskId slug now taskState) k = taskState k)"
  using assms by (simp add: handleTaskEdit_def reopened_def Let_def)

theorem handleTaskEdit_frame_witness:
  "fst (handleTaskEdit (lit ''t1'') Undefined (lit ''2024-02-02T00:00:00.000Z'')
          [lit ''t1'' \<mapsto> done_entry]) (lit ''t1'')
   = Some (done_entry\<lparr> ts_completed := Val False, ts_completedAt := Null,
                        ts_updatedAt := Val (lit ''2024-02-02T00:00:00.000Z'') \<rparr>)"
  using handleTaskEdit_frame [of "[lit ''t1'' \<mapsto> done_entry]" "lit ''t1''" done_entry Undefined
      "lit ''2024-02-02T00:00:00.000Z''"]
  by (auto simp add: done_entry_def)

end
